theory Spec2Isabelle
  imports Main "HOL-Library.Sublist"
begin

section \<open>Python strings\<close>

text \<open>
  A Python \<open>str\<close> is a sequence of code points. It is modelled as a \<open>string\<close>
  (a \<open>char list\<close>) in which a \<open>char\<close> stands for the code point of the same
  number, so the model covers the texts whose code points are below 256. The character
  classes below are those of \<open>str.isdigit\<close>, \<open>str.isspace\<close> and \<open>str.lower\<close> on
  that range.
\<close>

definition code_point :: "char \<Rightarrow> nat" where
  "code_point c = of_char c"

text \<open>\<open>str.isdigit\<close>: the ASCII digits and the superscripts 2, 3 and 1.\<close>

definition isdigit :: "char \<Rightarrow> bool" where
  "isdigit c = (let n = code_point c in (48 \<le> n \<and> n \<le> 57) \<or> n = 178 \<or> n = 179 \<or> n = 185)"

text \<open>\<open>str.isspace\<close>, which is also what \<open>str.strip()\<close> and \<open>str.split()\<close> take for whitespace.\<close>

definition isspace :: "char \<Rightarrow> bool" where
  "isspace c = (let n = code_point c in (9 \<le> n \<and> n \<le> 13) \<or> (28 \<le> n \<and> n \<le> 32) \<or> n = 133 \<or> n = 160)"

definition lower_char :: "char \<Rightarrow> char" where
  "lower_char c = (let n = code_point c in
     if (65 \<le> n \<and> n \<le> 90) \<or> (192 \<le> n \<and> n \<le> 214) \<or> (216 \<le> n \<and> n \<le> 222)
     then char_of (n + 32) else c)"

text \<open>\<open>s.lower()\<close>\<close>

definition lower :: "string \<Rightarrow> string" where
  "lower s = map lower_char s"

text \<open>\<open>s.strip()\<close>\<close>

definition strip :: "string \<Rightarrow> string" where
  "strip s = rev (dropWhile isspace (rev (dropWhile isspace s)))"

text \<open>
  \<open>s.split()\<close>: the maximal runs of non-whitespace characters, in order. \<open>cur\<close> is the run
  being read.
\<close>

fun split_run :: "string \<Rightarrow> string \<Rightarrow> string list" where
  "split_run cur [] = (if cur = [] then [] else [cur])"
| "split_run cur (c # cs) =
     (if isspace c then (if cur = [] then split_run [] cs else cur # split_run [] cs)
      else split_run (cur @ [c]) cs)"

definition split_ws :: "string \<Rightarrow> string list" where
  "split_ws s = split_run [] s"

text \<open>\<open>s.split(sep)\<close> for a one-character separator: empty pieces are kept.\<close>

fun split_on :: "char \<Rightarrow> string \<Rightarrow> string list" where
  "split_on sep [] = [[]]"
| "split_on sep (c # cs) =
     (if c = sep then [] # split_on sep cs
      else (case split_on sep cs of [] \<Rightarrow> [[c]] | w # ws \<Rightarrow> (c # w) # ws))"

text \<open>\<open>sep.join(xs)\<close>\<close>

fun join :: "string \<Rightarrow> string list \<Rightarrow> string" where
  "join sep [] = []"
| "join sep [x] = x"
| "join sep (x # y # ys) = x @ sep @ join sep (y # ys)"

text \<open>\<open>k in s\<close> for strings: \<open>k\<close> occurs in \<open>s\<close> as a contiguous piece.\<close>

fun contains :: "string \<Rightarrow> string \<Rightarrow> bool" where
  "contains [] k = (k = [])"
| "contains (c # cs) k = (prefix k (c # cs) \<or> contains cs k)"

text \<open>\<open>str(n)\<close> for an integer.\<close>

definition digit_char :: "nat \<Rightarrow> char" where
  "digit_char d = char_of (48 + d)"

fun str_nat :: "nat \<Rightarrow> string" where
  "str_nat n = (if n < 10 then [digit_char n] else str_nat (n div 10) @ [digit_char (n mod 10)])"

declare str_nat.simps [simp del]

definition str_int :: "int \<Rightarrow> string" where
  "str_int i = (if i < 0 then CHR ''-'' # str_nat (nat (- i)) else str_nat (nat i))"

section \<open>utils.py\<close>

text \<open>
  \<open>validate_phone\<close>:
  \<^verbatim>\<open>digits = ''.join(filter(str.isdigit, phone)); return 10 <= len(digits) <= 15\<close>
\<close>

definition validate_phone :: "string \<Rightarrow> bool" where
  "validate_phone phone =
     (let digits = filter isdigit phone in 10 \<le> length digits \<and> length digits \<le> 15)"

text \<open>
  \<open>re.sub(r'<[^>]*>', '', text)\<close>. The pattern matches a \<open><\<close>, then as many characters other
  than \<open>>\<close> as there are (line breaks included), then a \<open>>\<close>: at a \<open><\<close> it matches exactly when a
  \<open>>\<close> comes later, and then up to the first such \<open>>\<close>. \<open>re.sub\<close> scans from the left, deletes
  each match and goes on after it.
\<close>

function remove_tags :: "string \<Rightarrow> string" where
  "remove_tags [] = []"
| "remove_tags (c # cs) =
     (if c = CHR ''<'' \<and> CHR ''>'' \<in> set cs
      then remove_tags (tl (dropWhile (\<lambda>x. x \<noteq> CHR ''>'') cs))
      else c # remove_tags cs)"
  by pat_completeness auto
termination
proof (relation "measure length")
  show "wf (measure length)" by simp
next
  fix c :: char and cs :: string
  have "length (tl (dropWhile (\<lambda>x. x \<noteq> CHR ''>'') cs)) \<le> length cs"
    using length_dropWhile_le [of "\<lambda>x. x \<noteq> CHR ''>''" cs] by simp
  then show "(tl (dropWhile (\<lambda>x. x \<noteq> CHR ''>'') cs), c # cs) \<in> measure length"
    by simp
next
  fix c :: char and cs :: string
  show "(cs, c # cs) \<in> measure length" by simp
qed

text \<open>
  \<open>re.sub(r'[;\\\\/]', '', text)\<close>: in the raw pattern the class holds \<open>;\<close>, the escaped
  backslash (twice) and \<open>/\<close>.
\<close>

definition injection_char :: "char \<Rightarrow> bool" where
  "injection_char c = (c = CHR '';'' \<or> c = CHR 0x5C \<or> c = CHR ''/'')"

definition remove_injection_chars :: "string \<Rightarrow> string" where
  "remove_injection_chars s = filter (\<lambda>c. \<not> injection_char c) s"

definition sanitize_input :: "string \<Rightarrow> string" where
  "sanitize_input text = strip (remove_injection_chars (remove_tags text))"

text \<open>
  \<open>analyze_sentiment\<close>: the words of the lower-cased text as a set, and the sizes of its
  intersections with the two keyword sets.
\<close>

definition positive_words :: "string set" where
  "positive_words = {''great'', ''good'', ''excellent'', ''amazing'', ''love'', ''enjoy'', ''passionate''}"

definition negative_words :: "string set" where
  "negative_words = {''bad'', ''difficult'', ''hard'', ''problem'', ''issue'', ''challenging''}"

definition sentiment_words :: "string \<Rightarrow> string set" where
  "sentiment_words text = set (split_ws (lower text))"

definition analyze_sentiment :: "string \<Rightarrow> string" where
  "analyze_sentiment text =
     (let words = sentiment_words text;
          positive_count = card (words \<inter> positive_words);
          negative_count = card (words \<inter> negative_words)
      in if positive_count > negative_count then ''positive''
         else if negative_count > positive_count then ''negative''
         else ''neutral'')"

section \<open>chatbot.py\<close>

subsection \<open>Data\<close>

text \<open>
  The values held by the candidate record: strings, lists of strings and booleans
  (\<open>app.py\<close> starts a session with the seven fields empty, \<open>tech_questions_asked\<close> false and
  \<open>sentiment_history\<close> an empty list). The record is a dictionary keyed by field name.
\<close>

datatype pyval = VStr string | VList "string list" | VBool bool

type_synonym candidate_info = "string \<rightharpoonup> pyval"

type_synonym message = "string \<rightharpoonup> string"

datatype pyerror = KeyError string | TypeError | IndexError

text \<open>
  The attributes of a \<open>TalentScoutChatbot\<close> that \<open>get_response\<close> reads and writes.
  \<open>tech_questions_cache\<close> starts as an empty dictionary and becomes a list; the code only
  tests it for emptiness, takes its length and indexes it when it is not empty, so the empty
  list stands for the empty dictionary.
\<close>

record chatbot =
  conversation_started :: bool
  current_step :: string
  tech_questions_cache :: "string list"
  current_question_index :: int

definition init_chatbot :: chatbot where
  "init_chatbot = \<lparr>conversation_started = False, current_step = ''name'',
     tech_questions_cache = [], current_question_index = 0\<rparr>"

text \<open>The record \<open>initialize_session_state\<close> of \<open>app.py\<close> creates.\<close>

definition init_candidate_info :: candidate_info where
  "init_candidate_info =
     [''name'' \<mapsto> VStr [], ''email'' \<mapsto> VStr [], ''phone'' \<mapsto> VStr [],
      ''experience'' \<mapsto> VStr [], ''position'' \<mapsto> VStr [], ''location'' \<mapsto> VStr [],
      ''tech_stack'' \<mapsto> VList [], ''tech_questions_asked'' \<mapsto> VBool False,
      ''sentiment_history'' \<mapsto> VList []]"

subsection \<open>Prompts and validation\<close>

definition get_initial_greeting :: string where
  "get_initial_greeting =
     ''Hello! I'm the TalentScout Hiring Assistant. I'll be helping with your initial screening process. ''
     @ [CHR 0x0A] @ ''Could you please tell me your full name to get started?''"

definition questions :: "(string \<times> string) list" where
  "questions =
     [(''name'', ''Could you please tell me your full name?''),
      (''email'', ''What's your email address?''),
      (''phone'', ''What's your phone number?''),
      (''experience'', ''How many years of experience do you have in your field?''),
      (''position'', ''What position(s) are you interested in?''),
      (''location'', ''What's your current location?''),
      (''tech_stack'', ''Please list your tech stack (programming languages, frameworks, databases, tools), separated by commas:'')]"

text \<open>\<open>questions.get(current_step, "")\<close>\<close>

definition get_next_question :: "string \<Rightarrow> string" where
  "get_next_question step = (case map_of questions step of None \<Rightarrow> [] | Some q \<Rightarrow> q)"

definition validate_response :: "string \<Rightarrow> string \<Rightarrow> bool" where
  "validate_response step response =
     (if response = [] then False
      else if step = ''email'' then CHR ''@'' \<in> set response \<and> CHR ''.'' \<in> set response
      else if step = ''phone'' then (let digits = filter isdigit response in length digits \<ge> 10)
      else if step = ''experience'' then list_ex isdigit response
      else True)"

definition exit_keywords :: "string list" where
  "exit_keywords = [''exit'', ''quit'', ''stop'', ''bye'', ''goodbye'']"

definition should_end_conversation :: "string \<Rightarrow> bool" where
  "should_end_conversation user_input = list_ex (contains (lower user_input)) exit_keywords"

definition farewell :: string where
  "farewell = ''Thank you for your time. The conversation has ended. Have a great day!''"

subsection \<open>The step sequence\<close>

definition step_sequence :: "string list" where
  "step_sequence = [''name'', ''email'', ''phone'', ''experience'', ''position'', ''location'',
     ''tech_stack'', ''tech_questions'']"

text \<open>\<open>xs.index(x)\<close>; \<open>None\<close> is the \<open>ValueError\<close>.\<close>

fun index_of :: "'a \<Rightarrow> 'a list \<Rightarrow> nat option" where
  "index_of x [] = None"
| "index_of x (y # ys) = (if x = y then Some 0 else map_option Suc (index_of x ys))"

definition determine_next_step :: "string \<Rightarrow> string" where
  "determine_next_step current =
     (case index_of current step_sequence of
        None \<Rightarrow> ''name''
      | Some current_index \<Rightarrow>
          if current_index < length step_sequence - 1 then step_sequence ! (current_index + 1)
          else current)"

subsection \<open>The candidate record\<close>

text \<open>
  \<open>update_candidate_info\<close> works on \<open>candidate_info.copy()\<close> and returns the copy; the
  dictionary it was given is not written. The result below is that copy.
\<close>

definition update_candidate_info :: "string \<Rightarrow> string \<Rightarrow> candidate_info \<Rightarrow> candidate_info" where
  "update_candidate_info step user_input info =
     (let u0 = info;
          u1 = (if u0 ''tech_stack'' = None then u0(''tech_stack'' \<mapsto> VList []) else u0);
          u2 = (if u1 ''tech_questions_asked'' = None then u1(''tech_questions_asked'' \<mapsto> VBool False) else u1)
      in if step = ''name'' then u2(''name'' \<mapsto> VStr user_input)
         else if step = ''email'' then u2(''email'' \<mapsto> VStr user_input)
         else if step = ''phone'' then u2(''phone'' \<mapsto> VStr user_input)
         else if step = ''experience'' then u2(''experience'' \<mapsto> VStr user_input)
         else if step = ''position'' then u2(''position'' \<mapsto> VStr user_input)
         else if step = ''location'' then u2(''location'' \<mapsto> VStr user_input)
         else if step = ''tech_stack''
           then u2(''tech_stack'' \<mapsto> VList (map strip (split_on CHR '','' user_input)))
         else u2)"

subsection \<open>Technical questions\<close>

definition tech_templates :: "string \<Rightarrow> string list" where
  "tech_templates tech =
     [''What are the main features and benefits of '' @ tech @ ''?'',
      ''Can you describe a challenging problem you solved using '' @ tech @ ''?'',
      ''What are some best practices when working with '' @ tech @ ''?'']"

definition general_questions :: "string list" where
  "general_questions =
     [''How do you approach learning new technologies?'',
      ''How do you ensure code quality in your projects?'']"

definition generate_tech_questions :: "string list \<Rightarrow> pyval \<Rightarrow> string list" where
  "generate_tech_questions tech_stack experience_level =
     take 5 (concat (map tech_templates (take 3 tech_stack)) @ general_questions)"

text \<open>
  What slicing and iterating a record value gives: a list gives its entries, a string its
  characters as one-character strings, and a boolean is a \<open>TypeError\<close>.
\<close>

fun as_sequence :: "pyval \<Rightarrow> pyerror + string list" where
  "as_sequence (VList xs) = Inr xs"
| "as_sequence (VStr s) = Inr (map (\<lambda>c. [c]) s)"
| "as_sequence (VBool b) = Inl TypeError"

text \<open>
  \<open>xs[i]\<close>: an index from 0 up to the length reads from the front, one from \<open>-len(xs)\<close> up
  to \<open>-1\<close> reads from the back, and any other raises.
\<close>

definition py_index :: "'a list \<Rightarrow> int \<Rightarrow> pyerror + 'a" where
  "py_index xs i =
     (if 0 \<le> i \<and> i < int (length xs) then Inr (xs ! nat i)
      else if i < 0 \<and> - int (length xs) \<le> i then Inr (xs ! nat (int (length xs) + i))
      else Inl IndexError)"

definition closing_message :: string where
  "closing_message =
     ''Thank you for answering all the technical questions. ''
     @ ''Your responses have been recorded. The TalentScout team will review your ''
     @ ''application and get back to you soon. Is there anything else you'd like to mention?''"

definition intro_message :: "string list \<Rightarrow> string \<Rightarrow> string" where
  "intro_message tech_stack question =
     ''Great! Based on your tech stack ('' @ join '', '' tech_stack @ ''), ''
     @ ''I'd like to ask you a few technical questions.'' @ [CHR 0x0A, CHR 0x0A]
     @ ''Question 1: '' @ question"

definition next_question_message :: "int \<Rightarrow> string \<Rightarrow> string" where
  "next_question_message i question =
     ''Thank you for your answer.'' @ [CHR 0x0A, CHR 0x0A]
     @ ''Question '' @ str_int (i + 1) @ '': '' @ question"

text \<open>
  \<open>handle_tech_questions\<close>. The result is the chatbot after the call, the dictionary that was
  passed in as it is after the call, and the returned text or the exception raised. With an
  empty cache the two keys are read first (\<open>tech_stack\<close>, then \<open>experience\<close>), then the
  questions are generated and stored.
\<close>

definition handle_tech_questions ::
  "chatbot \<Rightarrow> candidate_info \<Rightarrow> string \<Rightarrow> chatbot \<times> candidate_info \<times> (pyerror + string)" where
  "handle_tech_questions self info user_response =
     (if tech_questions_cache self = [] then
        (case info ''tech_stack'' of
           None \<Rightarrow> (self, info, Inl (KeyError ''tech_stack''))
         | Some ts \<Rightarrow>
            (case info ''experience'' of
               None \<Rightarrow> (self, info, Inl (KeyError ''experience''))
             | Some ex \<Rightarrow>
                (case as_sequence ts of
                   Inl e \<Rightarrow> (self, info, Inl e)
                 | Inr techs \<Rightarrow>
                    (let self1 = self\<lparr>tech_questions_cache := generate_tech_questions techs ex\<rparr>;
                         self2 = self1\<lparr>current_question_index := 0\<rparr>
                     in (case py_index (tech_questions_cache self2) 0 of
                           Inl e \<Rightarrow> (self2, info, Inl e)
                         | Inr q \<Rightarrow> (self2, info, Inr (intro_message techs q)))))))
      else
        (let self1 = self\<lparr>current_question_index := current_question_index self + 1\<rparr>
         in if current_question_index self1 \<ge> int (length (tech_questions_cache self1))
            then (self1, info(''tech_questions_asked'' \<mapsto> VBool True), Inr closing_message)
            else (case py_index (tech_questions_cache self1) (current_question_index self1) of
                    Inl e \<Rightarrow> (self1, info, Inl e)
                  | Inr q \<Rightarrow> (self1, info, Inr (next_question_message (current_question_index self1) q)))))"

text \<open>
  The later calls of the handler in a session, one after another: each call gets the
  dictionary and the answer of its turn, and the chatbot as the call before left it.
\<close>

fun handle_calls :: "chatbot \<Rightarrow> (candidate_info \<times> string) list \<Rightarrow> chatbot" where
  "handle_calls self [] = self"
| "handle_calls self ((info, user_response) # calls) =
     handle_calls (fst (handle_tech_questions self info user_response)) calls"

subsection \<open>The orchestrator\<close>

text \<open>\<open>messages[-1]["content"] if messages else ""\<close>\<close>

definition last_content :: "message list \<Rightarrow> pyerror + string" where
  "last_content messages =
     (if messages = [] then Inr []
      else (case (last messages) ''content'' of
              None \<Rightarrow> Inl (KeyError ''content'')
            | Some c \<Rightarrow> Inr c))"

definition rejection_message :: "string \<Rightarrow> string" where
  "rejection_message step =
     ''I'm sorry, but I need a valid '' @ step @ ''. '' @ get_next_question step"

text \<open>
  \<open>get_response\<close>. The result is the chatbot after the call, the caller's dictionary as it is
  after the call, and the returned text or the exception raised. The assignment
  \<open>candidate_info = self.update_candidate_info(...)\<close> binds the local name to the copy: from
  there on the handler gets the copy, and the caller's dictionary stays as it was.
\<close>

definition get_response ::
  "chatbot \<Rightarrow> message list \<Rightarrow> candidate_info \<Rightarrow> chatbot \<times> candidate_info \<times> (pyerror + string)" where
  "get_response self messages info =
     (if \<not> conversation_started self
      then (self\<lparr>conversation_started := True\<rparr>, info, Inr get_initial_greeting)
      else
        (case last_content messages of
           Inl e \<Rightarrow> (self, info, Inl e)
         | Inr last_message \<Rightarrow>
            if should_end_conversation last_message then (self, info, Inr farewell)
            else if current_step self = ''tech_questions''
              then handle_tech_questions self info last_message
            else if \<not> validate_response (current_step self) last_message
              then (self, info, Inr (rejection_message (current_step self)))
            else
              (let updated = update_candidate_info (current_step self) last_message info;
                   self1 = self\<lparr>current_step := determine_next_step (current_step self)\<rparr>
               in if current_step self1 = ''tech_questions''
                  then (case handle_tech_questions self1 updated [] of
                          (self2, updated2, r) \<Rightarrow> (self2, info, r))
                  else (self1, info, Inr (''Thank you. '' @ get_next_question (current_step self1))))))"

section \<open>Properties of the technical questions\<close>

lemma length_generate_tech_questions:
  "length (generate_tech_questions tech_stack experience) =
     min 5 (3 * min 3 (length tech_stack) + 2)"
proof -
  have "length (concat (map tech_templates xs)) = 3 * length xs" for xs
    by (induction xs) (simp_all add: tech_templates_def)
  then have "length (concat (map tech_templates (take 3 tech_stack))) = 3 * min 3 (length tech_stack)"
    by (simp add: min_def)
  then show ?thesis
    by (simp add: generate_tech_questions_def general_questions_def)
qed

lemma generate_tech_questions_nonempty: "generate_tech_questions tech_stack experience \<noteq> []"
  using length_generate_tech_questions [of tech_stack experience]
  by (auto simp: min_def split: if_splits)

lemma as_sequence_not_IndexError: "as_sequence v \<noteq> Inl IndexError"
  by (cases v) simp_all

lemma py_index_0: "xs \<noteq> [] \<Longrightarrow> py_index xs 0 = Inr (xs ! 0)"
  by (simp add: py_index_def)

text \<open>
  C10. Whatever the technology list (the empty one too) and the experience value,
  \<open>generate_tech_questions\<close> returns between 2 and 5 questions; so reading entry 0 of the
  set just generated succeeds, the first entry into the technical questions never raises an
  \<open>IndexError\<close>, and with a list under \<open>tech_stack\<close> and any value under \<open>experience\<close> it
  returns the introduction with question 1.
\<close>

theorem generate_tech_questions_bounds:
  "2 \<le> length (generate_tech_questions tech_stack experience)
   \<and> length (generate_tech_questions tech_stack experience) \<le> 5
   \<and> py_index (generate_tech_questions tech_stack experience) 0
       = Inr (generate_tech_questions tech_stack experience ! 0)
   \<and> (tech_questions_cache self = [] \<longrightarrow>
        snd (snd (handle_tech_questions self info user_response)) \<noteq> Inl IndexError)
   \<and> (tech_questions_cache self = [] \<and> info ''tech_stack'' = Some (VList tech_stack)
        \<and> info ''experience'' = Some experience \<longrightarrow>
        snd (snd (handle_tech_questions self info user_response))
          = Inr (intro_message tech_stack (generate_tech_questions tech_stack experience ! 0)))"
proof (intro conjI impI)
  show "2 \<le> length (generate_tech_questions tech_stack experience)"
    by (simp add: length_generate_tech_questions)
  show "length (generate_tech_questions tech_stack experience) \<le> 5"
    by (simp add: length_generate_tech_questions)
  show "py_index (generate_tech_questions tech_stack experience) 0
       = Inr (generate_tech_questions tech_stack experience ! 0)"
    by (rule py_index_0) (rule generate_tech_questions_nonempty)
next
  assume "tech_questions_cache self = []"
  then show "snd (snd (handle_tech_questions self info user_response)) \<noteq> Inl IndexError"
    by (auto simp: handle_tech_questions_def py_index_0 generate_tech_questions_nonempty Let_def
        as_sequence_not_IndexError split: option.splits sum.splits)
next
  assume "tech_questions_cache self = [] \<and> info ''tech_stack'' = Some (VList tech_stack)
        \<and> info ''experience'' = Some experience"
  then show "snd (snd (handle_tech_questions self info user_response))
          = Inr (intro_message tech_stack (generate_tech_questions tech_stack experience ! 0))"
    by (simp add: handle_tech_questions_def py_index_0 generate_tech_questions_nonempty Let_def)
qed

theorem generate_tech_questions_bounds_witness:
  "length (generate_tech_questions [] (VStr ''3 years'')) = 2
   \<and> tech_questions_cache init_chatbot = []
   \<and> snd (snd (handle_tech_questions init_chatbot
         (init_candidate_info(''experience'' \<mapsto> VStr ''3 years'')) []))
       = Inr (intro_message [] ''How do you approach learning new technologies?'')"
  using generate_tech_questions_bounds [of "[]" "VStr ''3 years''" init_chatbot
      "init_candidate_info(''experience'' \<mapsto> VStr ''3 years'')" "[]"]
  by (simp add: init_chatbot_def init_candidate_info_def generate_tech_questions_def
      general_questions_def)

text \<open>
  C2. The input \<open>Python, React, Node.js, Go\<close> is stored as the four names in order. For
  them \<open>generate_tech_questions\<close> returns the first five entries of the three questions for
  each of Python, React and Node.js followed by the two general questions: the three
  questions about Python and the first two about React. The experience argument has no
  effect on the result.
\<close>

theorem generate_tech_questions_python_react:
  "update_candidate_info ''tech_stack'' ''Python, React, Node.js, Go'' info ''tech_stack''
     = Some (VList [''Python'', ''React'', ''Node.js'', ''Go''])
   \<and> generate_tech_questions [''Python'', ''React'', ''Node.js'', ''Go''] experience
     = take 5 (tech_templates ''Python'' @ tech_templates ''React'' @ tech_templates ''Node.js''
               @ general_questions)
   \<and> generate_tech_questions [''Python'', ''React'', ''Node.js'', ''Go''] experience
     = [''What are the main features and benefits of Python?'',
        ''Can you describe a challenging problem you solved using Python?'',
        ''What are some best practices when working with Python?'',
        ''What are the main features and benefits of React?'',
        ''Can you describe a challenging problem you solved using React?'']
   \<and> length (generate_tech_questions [''Python'', ''React'', ''Node.js'', ''Go''] experience) = 5
   \<and> generate_tech_questions tech_stack experience = generate_tech_questions tech_stack other"
proof (intro conjI)
  show "update_candidate_info ''tech_stack'' ''Python, React, Node.js, Go'' info ''tech_stack''
     = Some (VList [''Python'', ''React'', ''Node.js'', ''Go''])"
    by (simp add: update_candidate_info_def Let_def strip_def isspace_def code_point_def)
  show "generate_tech_questions [''Python'', ''React'', ''Node.js'', ''Go''] experience
     = take 5 (tech_templates ''Python'' @ tech_templates ''React'' @ tech_templates ''Node.js''
               @ general_questions)"
    by (simp add: generate_tech_questions_def)
  show "generate_tech_questions [''Python'', ''React'', ''Node.js'', ''Go''] experience
     = [''What are the main features and benefits of Python?'',
        ''Can you describe a challenging problem you solved using Python?'',
        ''What are some best practices when working with Python?'',
        ''What are the main features and benefits of React?'',
        ''Can you describe a challenging problem you solved using React?'']"
    by (simp add: generate_tech_questions_def tech_templates_def general_questions_def)
  show "length (generate_tech_questions [''Python'', ''React'', ''Node.js'', ''Go''] experience) = 5"
    by (simp add: length_generate_tech_questions)
  show "generate_tech_questions tech_stack experience = generate_tech_questions tech_stack other"
    by (simp add: generate_tech_questions_def)
qed

theorem generate_tech_questions_python_react_witness:
  "generate_tech_questions [''Python'', ''React'', ''Node.js'', ''Go''] (VStr ''2 years'')
     = generate_tech_questions [''Python'', ''React'', ''Node.js'', ''Go''] (VStr ''10 years'')
   \<and> generate_tech_questions [''Python'', ''React'', ''Node.js'', ''Go''] (VStr ''10 years'') ! 4
     = ''Can you describe a challenging problem you solved using React?''"
  using generate_tech_questions_python_react
    [of init_candidate_info "VStr ''10 years''" "[''Python'', ''React'', ''Node.js'', ''Go'']"
        "VStr ''2 years''"]
  by (simp add: generate_tech_questions_def tech_templates_def general_questions_def)

section \<open>The two phone checks\<close>

text \<open>
  C6. \<open>validate_response\<close> at the step \<open>phone\<close> accepts exactly the inputs with at least 10
  digit characters, with no upper bound; \<open>validate_phone\<close> accepts exactly those with 10 to
  15 of them. So an input with 16 or more digits passes the first and fails the second.
\<close>

theorem phone_validators_diverge:
  "(validate_response ''phone'' x \<longleftrightarrow> 10 \<le> length (filter isdigit x))
   \<and> (validate_phone x \<longleftrightarrow> 10 \<le> length (filter isdigit x) \<and> length (filter isdigit x) \<le> 15)
   \<and> (16 \<le> length (filter isdigit x) \<longrightarrow> validate_response ''phone'' x \<and> \<not> validate_phone x)"
  by (auto simp: validate_response_def validate_phone_def Let_def)

theorem phone_validators_diverge_witness:
  "16 \<le> length (filter isdigit ''+1 (555) 123-4567 890 123 45'')
   \<and> validate_response ''phone'' ''+1 (555) 123-4567 890 123 45''
   \<and> \<not> validate_phone ''+1 (555) 123-4567 890 123 45''"
  using phone_validators_diverge [of "''+1 (555) 123-4567 890 123 45''"]
  by (simp add: isdigit_def code_point_def)

section \<open>Facts about strings\<close>

lemmas char_eval = code_point_def char_of_def bit_0

lemma contains_iff_sublist: "contains s k \<longleftrightarrow> sublist k s"
  by (induction s) (simp_all add: sublist_Cons_right)

lemma lower_append: "lower (a @ b) = lower a @ lower b"
  by (simp add: lower_def)

lemma should_end_conversation_iff:
  "should_end_conversation m \<longleftrightarrow> (\<exists>k \<in> set exit_keywords. sublist k (lower m))"
  by (simp add: should_end_conversation_def list_ex_iff contains_iff_sublist)

lemma isspace_lower_char: "isspace c \<Longrightarrow> lower_char c = c"
  by (auto simp: isspace_def lower_char_def Let_def)

lemma isspace_not_isdigit: "isspace c \<Longrightarrow> \<not> isdigit c"
  by (auto simp: isspace_def isdigit_def Let_def)

lemma isspace_not_injection_char: "isspace c \<Longrightarrow> \<not> injection_char c"
  by (auto simp: isspace_def injection_char_def char_eval)

lemma lower_whitespace: "list_all isspace t \<Longrightarrow> lower t = t"
  by (induction t) (simp_all add: lower_def isspace_lower_char)

lemma should_end_conversation_Nil: "\<not> should_end_conversation []"
  by (simp add: should_end_conversation_def exit_keywords_def lower_def)

lemma should_end_conversation_whitespace:
  assumes "list_all isspace t"
  shows "\<not> should_end_conversation t"
proof
  assume "should_end_conversation t"
  then obtain k where k: "k \<in> set exit_keywords" "sublist k (lower t)"
    unfolding should_end_conversation_iff by blast
  from k(2) assms have "set k \<subseteq> set t"
    using set_mono_sublist [of k t] by (simp add: lower_whitespace)
  with assms have "list_all isspace k"
    by (auto simp: list_all_iff)
  with k(1) show False
    by (auto simp: exit_keywords_def isspace_def char_eval)
qed

lemma remove_tags_no_open: "CHR ''<'' \<notin> set t \<Longrightarrow> remove_tags t = t"
  by (induction t) auto

lemma sanitize_input_whitespace:
  assumes "list_all isspace raw"
  shows "sanitize_input raw = []"
proof -
  have "\<not> isspace (CHR ''<'')" by (simp add: isspace_def char_eval)
  with assms have "CHR ''<'' \<notin> set raw" by (auto simp: list_all_iff)
  then have r: "remove_tags raw = raw" by (rule remove_tags_no_open)
  have i: "remove_injection_chars raw = raw"
    using assms by (auto simp: remove_injection_chars_def list_all_iff isspace_not_injection_char)
  have d: "dropWhile isspace raw = []"
    using assms by (simp add: list_all_iff)
  show ?thesis by (simp only: sanitize_input_def strip_def r i d rev.simps dropWhile.simps)
qed

section \<open>Properties of the orchestrator\<close>

text \<open>
  C4. In a session past the greeting, whatever the current step, if the latest user message
  holds one of the words exit, quit, stop, bye, goodbye in any letter case anywhere in it,
  \<open>get_response\<close> returns the farewell and leaves the chatbot and the candidate record as
  they were: nothing is validated, written or advanced.
\<close>

theorem exit_keyword_ends_conversation:
  assumes "conversation_started self"
    and "messages \<noteq> []"
    and "last messages ''content'' = Some (pre @ word @ post)"
    and "lower word \<in> {''exit'', ''quit'', ''stop'', ''bye'', ''goodbye''}"
  shows "should_end_conversation (pre @ word @ post)
    \<and> get_response self messages info = (self, info, Inr farewell)"
proof -
  have "lower word \<in> set exit_keywords"
    using assms(4) by (simp add: exit_keywords_def)
  moreover have "sublist (lower word) (lower (pre @ word @ post))"
    by (simp add: lower_append)
  ultimately have e: "should_end_conversation (pre @ word @ post)"
    unfolding should_end_conversation_iff by blast
  have "last_content messages = Inr (pre @ word @ post)"
    using assms(2,3) by (simp add: last_content_def)
  with e assms(1) show ?thesis
    by (simp add: get_response_def)
qed

theorem exit_keyword_ends_conversation_witness:
  "get_response (init_chatbot\<lparr>conversation_started := True, current_step := ''phone''\<rparr>)
     [[''role'' \<mapsto> ''user'', ''content'' \<mapsto> ''I QUIT this'']] init_candidate_info
   = (init_chatbot\<lparr>conversation_started := True, current_step := ''phone''\<rparr>,
      init_candidate_info, Inr farewell)"
  using exit_keyword_ends_conversation
    [of "init_chatbot\<lparr>conversation_started := True, current_step := ''phone''\<rparr>"
        "[[''role'' \<mapsto> ''user'', ''content'' \<mapsto> ''I QUIT this'']]"
        "''I ''" "''QUIT''" "'' this''" init_candidate_info]
  by (simp add: init_chatbot_def lower_def lower_char_def code_point_def char_of_def bit_0)

text \<open>
  A call of the handler writes at most the key \<open>tech_questions_asked\<close> of the dictionary it
  is given, and only with the closing message.
\<close>

lemma handle_tech_questions_frame:
  assumes "handle_tech_questions self info u = (self', info', r)"
  shows "info' = info
    \<or> (info' = info(''tech_questions_asked'' \<mapsto> VBool True) \<and> r = Inr closing_message
        \<and> tech_questions_cache self \<noteq> []
        \<and> int (length (tech_questions_cache self)) \<le> current_question_index self + 1)"
  using assms
  by (auto simp: handle_tech_questions_def Let_def split: if_splits option.splits sum.splits)

text \<open>
  C9. Whatever the chatbot, the messages and the caller's dictionary, a call of
  \<open>get_response\<close> leaves every key of the caller's dictionary other than
  \<open>tech_questions_asked\<close> as it was. The dictionary is either unchanged or has
  \<open>tech_questions_asked\<close> set to true, which happens only at the step \<open>tech_questions\<close>,
  with the closing message, when the questions are exhausted.
\<close>

theorem get_response_frame:
  assumes "get_response self messages info = (self', info', r)"
  shows "(\<forall>k. k \<noteq> ''tech_questions_asked'' \<longrightarrow> info' k = info k)
    \<and> (info' = info
        \<or> (info' = info(''tech_questions_asked'' \<mapsto> VBool True)
            \<and> current_step self = ''tech_questions'' \<and> r = Inr closing_message
            \<and> int (length (tech_questions_cache self)) \<le> current_question_index self + 1))"
proof -
  have d: "info' = info
        \<or> (info' = info(''tech_questions_asked'' \<mapsto> VBool True)
            \<and> current_step self = ''tech_questions'' \<and> r = Inr closing_message
            \<and> int (length (tech_questions_cache self)) \<le> current_question_index self + 1)"
  proof (cases "conversation_started self")
    case False
    with assms show ?thesis by (simp add: get_response_def)
  next
    case started: True
    show ?thesis
    proof (cases "last_content messages")
      case (Inl e)
      with started assms show ?thesis by (simp add: get_response_def)
    next
      case (Inr m)
      show ?thesis
      proof (cases "\<not> should_end_conversation m \<and> current_step self = ''tech_questions''")
        case True
        with started Inr assms have "handle_tech_questions self info m = (self', info', r)"
          by (simp add: get_response_def)
        from handle_tech_questions_frame [OF this] True show ?thesis by blast
      next
        case False
        with started Inr assms have "info' = info"
          by (auto simp: get_response_def Let_def split: if_splits prod.splits)
        then show ?thesis by simp
      qed
    qed
  qed
  then show ?thesis by auto
qed

theorem get_response_frame_witness:
  "fst (snd (get_response
      \<lparr>conversation_started = True, current_step = ''tech_questions'',
        tech_questions_cache = general_questions, current_question_index = 1\<rparr>
      [[''role'' \<mapsto> ''user'', ''content'' \<mapsto> ''With tests and reviews'']]
      init_candidate_info)) ''name'' = Some (VStr [])
   \<and> fst (snd (get_response
      \<lparr>conversation_started = True, current_step = ''tech_questions'',
        tech_questions_cache = general_questions, current_question_index = 1\<rparr>
      [[''role'' \<mapsto> ''user'', ''content'' \<mapsto> ''With tests and reviews'']]
      init_candidate_info)) ''tech_questions_asked'' = Some (VBool True)"
proof -
  let ?res = "get_response
      \<lparr>conversation_started = True, current_step = ''tech_questions'',
        tech_questions_cache = general_questions, current_question_index = 1\<rparr>
      [[''role'' \<mapsto> ''user'', ''content'' \<mapsto> ''With tests and reviews'']]
      init_candidate_info"
  have e: "?res = (fst ?res, fst (snd ?res), snd (snd ?res))" by simp
  have n: "fst (snd ?res) ''name'' = Some (VStr [])"
    using get_response_frame [OF e] by (simp add: init_candidate_info_def)
  have "fst (snd ?res) ''tech_questions_asked'' = Some (VBool True)"
    by (simp add: get_response_def last_content_def should_end_conversation_def
        exit_keywords_def lower_def lower_char_def char_eval handle_tech_questions_def
        general_questions_def)
  with n show ?thesis by simp
qed

text \<open>
  C1. At the step \<open>name\<close> the input \<open>John Smith\<close> is accepted and the step advances to
  \<open>email\<close>, but the caller's record still has the empty name afterwards: the name is in the
  copy made by \<open>update_candidate_info\<close>, which \<open>get_response\<close> drops.
\<close>

theorem name_step_leaves_record:
  "get_response (init_chatbot\<lparr>conversation_started := True\<rparr>)
     [[''role'' \<mapsto> ''user'', ''content'' \<mapsto> ''John Smith'']] init_candidate_info
   = (init_chatbot\<lparr>conversation_started := True, current_step := ''email''\<rparr>,
      init_candidate_info, Inr ''Thank you. What's your email address?'')
   \<and> init_candidate_info ''name'' = Some (VStr [])
   \<and> update_candidate_info ''name'' ''John Smith'' init_candidate_info ''name''
       = Some (VStr ''John Smith'')"
  by (simp add: get_response_def init_chatbot_def last_content_def should_end_conversation_def
      exit_keywords_def lower_def lower_char_def char_eval validate_response_def
      determine_next_step_def step_sequence_def get_next_question_def questions_def
      update_candidate_info_def init_candidate_info_def Let_def)

text \<open>
  C3, as stated, fails: at the step \<open>name\<close> an input of three spaces passes
  \<open>validate_response\<close> and the step advances to \<open>email\<close>.
\<close>

theorem whitespace_name_counterexample:
  "validate_response ''name'' ''   ''
   \<and> get_response (init_chatbot\<lparr>conversation_started := True\<rparr>)
        [[''role'' \<mapsto> ''user'', ''content'' \<mapsto> ''   '']] init_candidate_info
      = (init_chatbot\<lparr>conversation_started := True, current_step := ''email''\<rparr>,
         init_candidate_info, Inr ''Thank you. What's your email address?'')"
  by (simp add: get_response_def init_chatbot_def last_content_def should_end_conversation_def
      exit_keywords_def lower_def lower_char_def char_eval validate_response_def
      determine_next_step_def step_sequence_def get_next_question_def questions_def Let_def)

text \<open>
  C3, amended. In a session past the greeting, at every step other than \<open>tech_questions\<close>:
  an empty latest input fails \<open>validate_response\<close>, and \<open>get_response\<close> returns the
  step's prompt behind the rejection prefix and leaves the chatbot and the record as they
  were; a whitespace-only input is rejected in the same way at the steps \<open>email\<close>, \<open>phone\<close>
  and \<open>experience\<close>, and passes \<open>validate_response\<close> at every other step when it is not
  empty. \<open>sanitize_input\<close> turns every whitespace-only text into the empty one.
\<close>

theorem empty_input_rejected:
  assumes "conversation_started self"
    and "current_step self \<noteq> ''tech_questions''"
    and "last_content messages = Inr t"
  shows "(t = [] \<longrightarrow>
            \<not> validate_response (current_step self) t
            \<and> get_response self messages info
                = (self, info, Inr (''I'm sorry, but I need a valid '' @ current_step self @ ''. ''
                                     @ get_next_question (current_step self))))
    \<and> (list_all isspace t \<and> current_step self \<in> {''email'', ''phone'', ''experience''} \<longrightarrow>
            \<not> validate_response (current_step self) t
            \<and> get_response self messages info
                = (self, info, Inr (''I'm sorry, but I need a valid '' @ current_step self @ ''. ''
                                     @ get_next_question (current_step self))))
    \<and> (t \<noteq> [] \<and> list_all isspace t
          \<and> current_step self \<notin> {''email'', ''phone'', ''experience''} \<longrightarrow>
            validate_response (current_step self) t)
    \<and> (list_all isspace raw \<longrightarrow> sanitize_input raw = [])"
proof (intro conjI impI)
  assume "t = []"
  then show "\<not> validate_response (current_step self) t" by (simp add: validate_response_def)
next
  assume e: "t = []"
  then have "\<not> validate_response (current_step self) t" by (simp add: validate_response_def)
  with assms e show "get_response self messages info
      = (self, info, Inr (''I'm sorry, but I need a valid '' @ current_step self @ ''. ''
                           @ get_next_question (current_step self)))"
    by (simp add: get_response_def should_end_conversation_Nil rejection_message_def)
next
  assume w: "list_all isspace t \<and> current_step self \<in> {''email'', ''phone'', ''experience''}"
  have at: "\<not> isspace (CHR ''@'')" by (simp add: isspace_def char_eval)
  from w have "filter isdigit t = []" "\<not> list_ex isdigit t" "CHR ''@'' \<notin> set t"
    using at by (auto simp: list_all_iff list_ex_iff filter_empty_conv isspace_not_isdigit)
  with w show v: "\<not> validate_response (current_step self) t"
    by (auto simp: validate_response_def)
  from w have "\<not> should_end_conversation t" by (simp add: should_end_conversation_whitespace)
  with v assms show "get_response self messages info
      = (self, info, Inr (''I'm sorry, but I need a valid '' @ current_step self @ ''. ''
                           @ get_next_question (current_step self)))"
    by (simp add: get_response_def rejection_message_def)
next
  assume "t \<noteq> [] \<and> list_all isspace t
          \<and> current_step self \<notin> {''email'', ''phone'', ''experience''}"
  then show "validate_response (current_step self) t"
    by (simp add: validate_response_def)
next
  assume "list_all isspace raw"
  then show "sanitize_input raw = []" by (rule sanitize_input_whitespace)
qed

theorem empty_input_rejected_witness:
  "get_response (init_chatbot\<lparr>conversation_started := True, current_step := ''location''\<rparr>)
     [[''role'' \<mapsto> ''user'', ''content'' \<mapsto> []]] init_candidate_info
   = (init_chatbot\<lparr>conversation_started := True, current_step := ''location''\<rparr>,
      init_candidate_info, Inr ''I'm sorry, but I need a valid location. What's your current location?'')
   \<and> get_response (init_chatbot\<lparr>conversation_started := True, current_step := ''phone''\<rparr>)
     [[''role'' \<mapsto> ''user'', ''content'' \<mapsto> ''  '']] init_candidate_info
   = (init_chatbot\<lparr>conversation_started := True, current_step := ''phone''\<rparr>,
      init_candidate_info, Inr ''I'm sorry, but I need a valid phone. What's your phone number?'')
   \<and> sanitize_input ''  '' = []"
  using empty_input_rejected
    [of "init_chatbot\<lparr>conversation_started := True, current_step := ''location''\<rparr>"
        "[[''role'' \<mapsto> ''user'', ''content'' \<mapsto> []]]" "[]" init_candidate_info "''  ''"]
    empty_input_rejected
    [of "init_chatbot\<lparr>conversation_started := True, current_step := ''phone''\<rparr>"
        "[[''role'' \<mapsto> ''user'', ''content'' \<mapsto> ''  '']]" "''  ''" init_candidate_info "''  ''"]
  by (simp add: init_chatbot_def last_content_def isspace_def char_eval get_next_question_def
      questions_def)

section \<open>The technical questions are generated once\<close>

lemma handle_tech_questions_cached:
  assumes "tech_questions_cache self \<noteq> []"
  shows "tech_questions_cache (fst (handle_tech_questions self info u)) = tech_questions_cache self"
    and "current_question_index (fst (handle_tech_questions self info u))
           = current_question_index self + 1"
  using assms
  by (simp_all add: handle_tech_questions_def Let_def split: sum.splits)

lemma handle_calls_cached:
  "tech_questions_cache self \<noteq> [] \<Longrightarrow>
     tech_questions_cache (handle_calls self calls) = tech_questions_cache self
     \<and> current_question_index (handle_calls self calls)
         = current_question_index self + int (length calls)"
proof (induction calls arbitrary: self)
  case Nil
  then show ?case by simp
next
  case (Cons call calls)
  obtain info u where c: "call = (info, u)" by (cases call)
  let ?next = "fst (handle_tech_questions self info u)"
  have n: "tech_questions_cache ?next = tech_questions_cache self"
    "current_question_index ?next = current_question_index self + 1"
    using Cons.prems by (simp_all add: handle_tech_questions_cached)
  with Cons.prems have "tech_questions_cache ?next \<noteq> []" by simp
  from Cons.IH [OF this] n c show ?case by simp
qed

lemma handle_tech_questions_first:
  assumes "tech_questions_cache self = []"
    and "info ''tech_stack'' = Some (VList tech_stack)"
    and "info ''experience'' = Some experience"
  shows "handle_tech_questions self info u
    = (self\<lparr>tech_questions_cache := generate_tech_questions tech_stack experience,
            current_question_index := 0\<rparr>,
       info,
       Inr (intro_message tech_stack (generate_tech_questions tech_stack experience ! 0)))"
  using assms
  by (simp add: handle_tech_questions_def Let_def py_index_0 generate_tech_questions_nonempty)

lemma handle_tech_questions_later:
  assumes "tech_questions_cache later \<noteq> []" and "0 \<le> current_question_index later"
  shows "handle_tech_questions later info u
    = (later\<lparr>current_question_index := current_question_index later + 1\<rparr>,
       (if int (length (tech_questions_cache later)) \<le> current_question_index later + 1
        then info(''tech_questions_asked'' \<mapsto> VBool True) else info),
       Inr (if int (length (tech_questions_cache later)) \<le> current_question_index later + 1
            then closing_message
            else next_question_message (current_question_index later + 1)
                   (tech_questions_cache later ! nat (current_question_index later + 1))))"
  using assms
  by (simp add: handle_tech_questions_def Let_def py_index_def)

text \<open>
  C5. With an empty cache and a record holding a technology list and an experience value,
  the first call of \<open>handle_tech_questions\<close> stores the questions generated from them, sets
  the index to 0 and returns the introduction naming the technologies with question 1.
  After it, however many later calls follow and whatever records and answers they get, the
  cache is still that question set and the index is the number of later calls. A later
  call adds one to the index and, when the index reaches the length of the set, sets
  \<open>tech_questions_asked\<close> to true in the record it was given and returns the closing
  message; before that it returns the next question with its number.
\<close>

theorem tech_questions_generated_once:
  assumes "tech_questions_cache self = []"
    and "info ''tech_stack'' = Some (VList tech_stack)"
    and "info ''experience'' = Some experience"
  shows "handle_tech_questions self info u
      = (self\<lparr>tech_questions_cache := generate_tech_questions tech_stack experience,
              current_question_index := 0\<rparr>,
         info,
         Inr (''Great! Based on your tech stack ('' @ join '', '' tech_stack @ ''), ''
              @ ''I'd like to ask you a few technical questions.'' @ [CHR 0x0A, CHR 0x0A]
              @ ''Question 1: '' @ generate_tech_questions tech_stack experience ! 0))
    \<and> tech_questions_cache (handle_calls (fst (handle_tech_questions self info u)) calls)
      = generate_tech_questions tech_stack experience
    \<and> current_question_index (handle_calls (fst (handle_tech_questions self info u)) calls)
      = int (length calls)
    \<and> (tech_questions_cache later \<noteq> [] \<and> 0 \<le> current_question_index later \<longrightarrow>
      handle_tech_questions later info' u'
      = (later\<lparr>current_question_index := current_question_index later + 1\<rparr>,
         (if int (length (tech_questions_cache later)) \<le> current_question_index later + 1
          then info'(''tech_questions_asked'' \<mapsto> VBool True) else info'),
         Inr (if int (length (tech_questions_cache later)) \<le> current_question_index later + 1
              then closing_message
              else next_question_message (current_question_index later + 1)
                     (tech_questions_cache later ! nat (current_question_index later + 1)))))"
proof -
  note first = handle_tech_questions_first [OF assms, of u]
  have one: "handle_tech_questions self info u
      = (self\<lparr>tech_questions_cache := generate_tech_questions tech_stack experience,
              current_question_index := 0\<rparr>,
         info,
         Inr (''Great! Based on your tech stack ('' @ join '', '' tech_stack @ ''), ''
              @ ''I'd like to ask you a few technical questions.'' @ [CHR 0x0A, CHR 0x0A]
              @ ''Question 1: '' @ generate_tech_questions tech_stack experience ! 0))"
    using first by (simp add: intro_message_def)
  let ?after = "fst (handle_tech_questions self info u)"
  have a: "tech_questions_cache ?after = generate_tech_questions tech_stack experience"
    "current_question_index ?after = 0"
    using first by simp_all
  then have "tech_questions_cache ?after \<noteq> []"
    by (simp add: generate_tech_questions_nonempty)
  from handle_calls_cached [OF this, of calls] a
  have two: "tech_questions_cache (handle_calls ?after calls)
      = generate_tech_questions tech_stack experience"
    and three: "current_question_index (handle_calls ?after calls) = int (length calls)"
    by simp_all
  have four: "tech_questions_cache later \<noteq> [] \<and> 0 \<le> current_question_index later \<longrightarrow>
      handle_tech_questions later info' u'
      = (later\<lparr>current_question_index := current_question_index later + 1\<rparr>,
         (if int (length (tech_questions_cache later)) \<le> current_question_index later + 1
          then info'(''tech_questions_asked'' \<mapsto> VBool True) else info'),
         Inr (if int (length (tech_questions_cache later)) \<le> current_question_index later + 1
              then closing_message
              else next_question_message (current_question_index later + 1)
                     (tech_questions_cache later ! nat (current_question_index later + 1))))"
    using handle_tech_questions_later by blast
  from one two three four show ?thesis by (intro conjI)
qed

theorem tech_questions_generated_once_witness:
  "tech_questions_cache
     (handle_calls
        (fst (handle_tech_questions init_chatbot
               (init_candidate_info(''tech_stack'' \<mapsto> VList [''Go''], ''experience'' \<mapsto> VStr ''3'')) []))
        [(init_candidate_info, ''It compiles fast''), (Map.empty, ''A race''), (Map.empty, ''gofmt'')])
     = tech_templates ''Go'' @ general_questions
   \<and> handle_tech_questions
       \<lparr>conversation_started = True, current_step = ''tech_questions'',
         tech_questions_cache = general_questions, current_question_index = 1\<rparr>
       init_candidate_info ''With reviews''
     = (\<lparr>conversation_started = True, current_step = ''tech_questions'',
         tech_questions_cache = general_questions, current_question_index = 2\<rparr>,
        init_candidate_info(''tech_questions_asked'' \<mapsto> VBool True), Inr closing_message)"
proof -
  let ?info = "init_candidate_info(''tech_stack'' \<mapsto> VList [''Go''], ''experience'' \<mapsto> VStr ''3'')"
  let ?calls = "[(init_candidate_info, ''It compiles fast''), (Map.empty, ''A race''),
    (Map.empty :: candidate_info, ''gofmt'')]"
  let ?later = "\<lparr>conversation_started = True, current_step = ''tech_questions'',
         tech_questions_cache = general_questions, current_question_index = 1\<rparr>"
  have h1: "tech_questions_cache init_chatbot = []" by (simp add: init_chatbot_def)
  have h2: "?info ''tech_stack'' = Some (VList [''Go''])" by simp
  have h3: "?info ''experience'' = Some (VStr ''3'')" by simp
  note t = tech_questions_generated_once
    [OF h1 h2 h3, of "[]" ?calls ?later init_candidate_info "''With reviews''"]
  have g: "generate_tech_questions [''Go''] (VStr ''3'') = tech_templates ''Go'' @ general_questions"
    by (simp add: generate_tech_questions_def tech_templates_def general_questions_def)
  from t have "tech_questions_cache (handle_calls (fst (handle_tech_questions init_chatbot ?info [])) ?calls)
      = generate_tech_questions [''Go''] (VStr ''3'')"
    by blast
  then have a: "tech_questions_cache (handle_calls (fst (handle_tech_questions init_chatbot ?info [])) ?calls)
      = tech_templates ''Go'' @ general_questions"
    by (simp only: g)
  have "tech_questions_cache ?later \<noteq> [] \<and> 0 \<le> current_question_index ?later"
    by (simp add: general_questions_def)
  with t have "handle_tech_questions ?later init_candidate_info ''With reviews''
      = (?later\<lparr>current_question_index := current_question_index ?later + 1\<rparr>,
         (if int (length (tech_questions_cache ?later)) \<le> current_question_index ?later + 1
          then init_candidate_info(''tech_questions_asked'' \<mapsto> VBool True) else init_candidate_info),
         Inr (if int (length (tech_questions_cache ?later)) \<le> current_question_index ?later + 1
              then closing_message
              else next_question_message (current_question_index ?later + 1)
                     (tech_questions_cache ?later ! nat (current_question_index ?later + 1))))"
    by blast
  then have b: "handle_tech_questions ?later init_candidate_info ''With reviews''
     = (\<lparr>conversation_started = True, current_step = ''tech_questions'',
         tech_questions_cache = general_questions, current_question_index = 2\<rparr>,
        init_candidate_info(''tech_questions_asked'' \<mapsto> VBool True), Inr closing_message)"
    by (simp add: general_questions_def)
  from a b show ?thesis by (rule conjI)
qed

section \<open>Properties of the sanitizer\<close>

lemma dropWhile_upto_close:
  "CHR ''>'' \<notin> set m \<Longrightarrow> dropWhile (\<lambda>x. x \<noteq> CHR ''>'') (m @ CHR ''>'' # s) = CHR ''>'' # s"
  by (induction m) auto

lemma remove_tags_match:
  assumes "CHR ''<'' \<notin> set p" and "CHR ''>'' \<notin> set m"
  shows "remove_tags (p @ CHR ''<'' # m @ CHR ''>'' # s) = p @ remove_tags s"
  using assms(1)
proof (induction p)
  case Nil
  show ?case using assms(2) by (simp add: dropWhile_upto_close)
next
  case (Cons c p)
  then show ?case by auto
qed

lemma remove_tags_no_match:
  "\<not> (\<exists>p m s. t = p @ CHR ''<'' # m @ CHR ''>'' # s) \<Longrightarrow> remove_tags t = t"
proof (induction t)
  case Nil
  show ?case by simp
next
  case (Cons c cs)
  have no_tail: "\<not> (\<exists>p m s. cs = p @ CHR ''<'' # m @ CHR ''>'' # s)"
  proof
    assume "\<exists>p m s. cs = p @ CHR ''<'' # m @ CHR ''>'' # s"
    then obtain p m s where "cs = p @ CHR ''<'' # m @ CHR ''>'' # s" by blast
    then have "c # cs = (c # p) @ CHR ''<'' # m @ CHR ''>'' # s" by simp
    with Cons.prems show False by blast
  qed
  have "\<not> (c = CHR ''<'' \<and> CHR ''>'' \<in> set cs)"
  proof
    assume a: "c = CHR ''<'' \<and> CHR ''>'' \<in> set cs"
    then obtain m s where "cs = m @ CHR ''>'' # s" by (meson split_list)
    with a have "c # cs = [] @ CHR ''<'' # m @ CHR ''>'' # s" by simp
    with Cons.prems show False by blast
  qed
  with Cons.IH [OF no_tail] show ?case by auto
qed

lemma set_remove_tags: "set (remove_tags t) \<subseteq> set t"
proof (induction t rule: remove_tags.induct)
  case 1
  show ?case by simp
next
  case (2 c cs)
  show ?case
  proof (cases "c = CHR ''<'' \<and> CHR ''>'' \<in> set cs")
    case True
    have "set (tl (dropWhile (\<lambda>x. x \<noteq> CHR ''>'') cs)) \<subseteq> set cs"
    proof
      fix x
      assume "x \<in> set (tl (dropWhile (\<lambda>x. x \<noteq> CHR ''>'') cs))"
      then have "x \<in> set (dropWhile (\<lambda>x. x \<noteq> CHR ''>'') cs)"
        by (cases "dropWhile (\<lambda>x. x \<noteq> CHR ''>'') cs") simp_all
      then show "x \<in> set cs" by (rule set_dropWhileD)
    qed
    with True 2 show ?thesis by auto
  next
    case False
    with 2 show ?thesis by auto
  qed
qed

lemma remove_tags_no_tag_left:
  "\<not> (\<exists>p m s. remove_tags t = p @ CHR ''<'' # m @ CHR ''>'' # s)"
proof (induction t rule: remove_tags.induct)
  case 1
  show ?case by simp
next
  case (2 c cs)
  show ?case
  proof (cases "c = CHR ''<'' \<and> CHR ''>'' \<in> set cs")
    case True
    with 2 show ?thesis by simp
  next
    case False
    then have r: "remove_tags (c # cs) = c # remove_tags cs" by auto
    from False 2 have ih: "\<not> (\<exists>p m s. remove_tags cs = p @ CHR ''<'' # m @ CHR ''>'' # s)"
      by blast
    show ?thesis
    proof
      assume "\<exists>p m s. remove_tags (c # cs) = p @ CHR ''<'' # m @ CHR ''>'' # s"
      then obtain p m s where e: "c # remove_tags cs = p @ CHR ''<'' # m @ CHR ''>'' # s"
        using r by auto
      show False
      proof (cases p)
        case Nil
        with e have "c = CHR ''<''" and "remove_tags cs = m @ CHR ''>'' # s" by simp_all
        then have "c = CHR ''<''" and "CHR ''>'' \<in> set (remove_tags cs)" by simp_all
        with set_remove_tags [of cs] False show False by auto
      next
        case (Cons d p')
        with e have "remove_tags cs = p' @ CHR ''<'' # m @ CHR ''>'' # s" by simp
        with ih show False by blast
      qed
    qed
  qed
qed

lemma no_injection_char_sanitize_input:
  "c \<in> set (sanitize_input t) \<Longrightarrow> c \<noteq> CHR '';'' \<and> c \<noteq> CHR 0x5C \<and> c \<noteq> CHR ''/''"
proof -
  assume "c \<in> set (sanitize_input t)"
  then have "c \<in> set (dropWhile isspace (rev (dropWhile isspace (remove_injection_chars (remove_tags t)))))"
    by (simp add: sanitize_input_def strip_def)
  then have "c \<in> set (remove_injection_chars (remove_tags t))"
    by (auto dest!: set_dropWhileD)
  then show ?thesis
    by (auto simp: remove_injection_chars_def injection_char_def)
qed

lemma subseq_remove_tags: "subseq (remove_tags t) t"
proof (induction t rule: remove_tags.induct)
  case 1
  show ?case by simp
next
  case (2 c cs)
  show ?case
  proof (cases "c = CHR ''<'' \<and> CHR ''>'' \<in> set cs")
    case True
    let ?rest = "tl (dropWhile (\<lambda>x. x \<noteq> CHR ''>'') cs)"
    have "suffix ?rest cs"
      by (meson suffix_dropWhile suffix_order.trans suffix_tl)
    then have "subseq ?rest (c # cs)"
      by (meson subseq_Cons' suffix_imp_subseq subseq_order.trans list_emb_Cons)
    with True 2 show ?thesis
      by (metis remove_tags.simps(2) subseq_order.trans)
  next
    case False
    with 2 show ?thesis by auto
  qed
qed

lemma strip_decomp:
  "\<exists>l r. u = l @ strip u @ r \<and> list_all isspace l \<and> list_all isspace r"
proof -
  let ?v = "dropWhile isspace u"
  have u: "u = takeWhile isspace u @ ?v" by simp
  have v: "?v = strip u @ rev (takeWhile isspace (rev ?v))"
    unfolding strip_def by (metis rev_append rev_rev_ident takeWhile_dropWhile_id)
  have "u = takeWhile isspace u @ strip u @ rev (takeWhile isspace (rev ?v))"
    using u v by metis
  moreover have "list_all isspace (takeWhile isspace u)"
    by (auto simp: list_all_iff dest: set_takeWhileD)
  moreover have "list_all isspace (rev (takeWhile isspace (rev ?v)))"
    by (auto simp: list_all_iff dest: set_takeWhileD)
  ultimately show ?thesis by blast
qed

lemma strip_ends:
  assumes "strip u \<noteq> []"
  shows "\<not> isspace (hd (strip u)) \<and> \<not> isspace (last (strip u))"
proof -
  let ?v = "dropWhile isspace u"
  let ?w = "dropWhile isspace (rev ?v)"
  from assms have w: "?w \<noteq> []" by (simp add: strip_def)
  then have "\<not> isspace (hd ?w)" by (rule hd_dropWhile)
  with w have l: "\<not> isspace (last (strip u))" by (simp add: strip_def last_rev)
  from w have rv: "rev ?v \<noteq> []" by (metis dropWhile.simps(1))
  then have v: "?v \<noteq> []" by simp
  then have hv: "\<not> isspace (hd ?v)" by (rule hd_dropWhile)
  have "suffix ?w (rev ?v)" by (rule suffix_dropWhile)
  then obtain z where "rev ?v = z @ ?w" by (auto simp: suffix_def)
  then have "?v = rev ?w @ rev z" by (metis rev_append rev_rev_ident)
  with w have "hd ?v = hd (rev ?w)" by (metis hd_append2 rev_is_Nil_conv)
  with hv have "\<not> isspace (hd (strip u))" by (simp add: strip_def)
  with l show ?thesis by simp
qed

text \<open>
  C7, as stated, fails on its example: the result has no backslash, so it is not the string
  \<open>alert(1)hello world\\test\<close> of the claim, with either one or two backslashes.
\<close>

theorem sanitize_input_script_counterexample:
  "sanitize_input ''<script>alert(1)</script>hello; world/test''
     \<noteq> ''alert(1)hello world'' @ [CHR 0x5C, CHR 0x5C] @ ''test''
   \<and> sanitize_input ''<script>alert(1)</script>hello; world/test''
     \<noteq> ''alert(1)hello world'' @ [CHR 0x5C] @ ''test''
   \<and> CHR 0x5C \<notin> set (sanitize_input ''<script>alert(1)</script>hello; world/test'')"
  by (simp add: sanitize_input_def remove_injection_chars_def injection_char_def strip_def
      isspace_def char_eval)

text \<open>
  C7, amended. \<open>sanitize_input\<close> always returns a string: it deletes each tag, leftmost
  first, from a \<open><\<close> to the next \<open>>\<close> (a text without such a pair is left as it is, and no
  such pair is left in the result), then deletes every \<open>;\<close>, backslash and \<open>/\<close>, then trims
  the whitespace at both ends. The result is what is left of the input, in order, and holds
  none of the three characters. For \<open><script>alert(1)</script>hello; world/test\<close> it is
  \<open>alert(1)hello worldtest\<close>.
\<close>

theorem sanitize_input_removals:
  "(CHR ''<'' \<notin> set p \<and> CHR ''>'' \<notin> set m \<longrightarrow>
      remove_tags (p @ CHR ''<'' # m @ CHR ''>'' # s) = p @ remove_tags s)
   \<and> (\<not> (\<exists>p m s. t = p @ CHR ''<'' # m @ CHR ''>'' # s) \<longrightarrow> remove_tags t = t)
   \<and> \<not> (\<exists>p m s. remove_tags t = p @ CHR ''<'' # m @ CHR ''>'' # s)
   \<and> sanitize_input t
       = strip (filter (\<lambda>c. c \<noteq> CHR '';'' \<and> c \<noteq> CHR 0x5C \<and> c \<noteq> CHR ''/'') (remove_tags t))
   \<and> (\<exists>l r. u = l @ strip u @ r \<and> list_all isspace l \<and> list_all isspace r)
   \<and> (strip u \<noteq> [] \<longrightarrow> \<not> isspace (hd (strip u)) \<and> \<not> isspace (last (strip u)))
   \<and> subseq (sanitize_input t) t
   \<and> (\<forall>c \<in> set (sanitize_input t). c \<noteq> CHR '';'' \<and> c \<noteq> CHR 0x5C \<and> c \<noteq> CHR ''/'')
   \<and> sanitize_input ''<script>alert(1)</script>hello; world/test'' = ''alert(1)hello worldtest''"
proof (intro conjI impI)
  assume "CHR ''<'' \<notin> set p \<and> CHR ''>'' \<notin> set m"
  then show "remove_tags (p @ CHR ''<'' # m @ CHR ''>'' # s) = p @ remove_tags s"
    by (simp add: remove_tags_match)
next
  assume "\<not> (\<exists>p m s. t = p @ CHR ''<'' # m @ CHR ''>'' # s)"
  then show "remove_tags t = t" by (rule remove_tags_no_match)
next
  show "\<not> (\<exists>p m s. remove_tags t = p @ CHR ''<'' # m @ CHR ''>'' # s)"
    by (rule remove_tags_no_tag_left)
next
  show "\<forall>c \<in> set (sanitize_input t). c \<noteq> CHR '';'' \<and> c \<noteq> CHR 0x5C \<and> c \<noteq> CHR ''/''"
    using no_injection_char_sanitize_input by blast
next
  show "sanitize_input t
       = strip (filter (\<lambda>c. c \<noteq> CHR '';'' \<and> c \<noteq> CHR 0x5C \<and> c \<noteq> CHR ''/'') (remove_tags t))"
    by (simp add: sanitize_input_def remove_injection_chars_def injection_char_def)
next
  show "\<exists>l r. u = l @ strip u @ r \<and> list_all isspace l \<and> list_all isspace r"
    by (rule strip_decomp)
next
  assume "strip u \<noteq> []"
  then show "\<not> isspace (hd (strip u))" "\<not> isspace (last (strip u))"
    by (simp_all add: strip_ends)
next
  obtain l r where "remove_injection_chars (remove_tags t) = l @ sanitize_input t @ r"
    using strip_decomp [of "remove_injection_chars (remove_tags t)"]
    by (auto simp: sanitize_input_def)
  then have "sublist (sanitize_input t) (remove_injection_chars (remove_tags t))"
    by (metis sublist_appendI)
  then have "subseq (sanitize_input t) (remove_injection_chars (remove_tags t))"
    by (rule sublist_imp_subseq)
  moreover have "subseq (remove_injection_chars (remove_tags t)) (remove_tags t)"
    by (simp add: remove_injection_chars_def)
  ultimately show "subseq (sanitize_input t) t"
    using subseq_remove_tags [of t] by (meson subseq_order.trans)
next
  show "sanitize_input ''<script>alert(1)</script>hello; world/test'' = ''alert(1)hello worldtest''"
    by (simp add: sanitize_input_def remove_injection_chars_def injection_char_def strip_def
        isspace_def char_eval)
qed

theorem sanitize_input_removals_witness:
  "remove_tags ''Hi <b>there</b>'' = ''Hi '' @ remove_tags ''there</b>''
   \<and> remove_tags ''1 < 2 and 2 < 3'' = ''1 < 2 and 2 < 3''
   \<and> strip ('' '' @ sanitize_input ''1 < 2 and 2 < 3'' @ [CHR 0x0A]) \<noteq> []
   \<and> \<not> isspace (hd (strip ('' '' @ sanitize_input ''1 < 2 and 2 < 3'' @ [CHR 0x0A])))"
proof -
  have h1: "CHR ''<'' \<notin> set ''Hi '' \<and> CHR ''>'' \<notin> set ''b''" by simp
  have h2: "\<not> (\<exists>p m s. ''1 < 2 and 2 < 3'' = p @ CHR ''<'' # m @ CHR ''>'' # s)"
  proof
    assume "\<exists>p m s. ''1 < 2 and 2 < 3'' = p @ CHR ''<'' # m @ CHR ''>'' # s"
    then obtain p m s where e: "''1 < 2 and 2 < 3'' = p @ CHR ''<'' # m @ CHR ''>'' # s" by blast
    have "CHR ''>'' \<in> set (p @ CHR ''<'' # m @ CHR ''>'' # s)" by simp
    with e have "CHR ''>'' \<in> set ''1 < 2 and 2 < 3''" by (simp only:)
    then show False by simp
  qed
  let ?u = "'' '' @ sanitize_input ''1 < 2 and 2 < 3'' @ [CHR 0x0A]"
  have h3: "strip ?u \<noteq> []"
    by (simp add: sanitize_input_def remove_injection_chars_def injection_char_def strip_def
        isspace_def char_eval)
  note t = sanitize_input_removals [of "''Hi ''" "''b''" "''there</b>''" "''1 < 2 and 2 < 3''" ?u]
  from t h1 have a: "remove_tags (''Hi '' @ CHR ''<'' # ''b'' @ CHR ''>'' # ''there</b>'')
      = ''Hi '' @ remove_tags ''there</b>''" by blast
  from t h2 have b: "remove_tags ''1 < 2 and 2 < 3'' = ''1 < 2 and 2 < 3''" by blast
  from t h3 have c: "\<not> isspace (hd (strip ?u))" by blast
  from a have a': "remove_tags ''Hi <b>there</b>'' = ''Hi '' @ remove_tags ''there</b>''" by simp
  from a' b h3 c show ?thesis by (intro conjI)
qed

section \<open>Properties of the sentiment tag\<close>

lemma of_char_char_of_small: "n < 256 \<Longrightarrow> of_char (char_of (n::nat)) = n"
  by (simp add: of_char_of)

lemma isspace_lower_char_iff: "isspace (lower_char c) \<longleftrightarrow> isspace c"
proof (cases "lower_char c = c")
  case True
  then show ?thesis by simp
next
  case False
  let ?n = "code_point c"
  from False have up: "(65 \<le> ?n \<and> ?n \<le> 90) \<or> (192 \<le> ?n \<and> ?n \<le> 214) \<or> (216 \<le> ?n \<and> ?n \<le> 222)"
    and l: "lower_char c = char_of (?n + 32)"
    by (auto simp: lower_char_def Let_def split: if_splits)
  from up have "?n + 32 < 256" by auto
  then have "code_point (lower_char c) = ?n + 32"
    using l by (simp add: code_point_def of_char_char_of_small)
  with up show ?thesis by (auto simp: isspace_def Let_def)
qed

lemma split_run_word:
  "\<not> list_ex isspace w \<Longrightarrow> split_run cur (w @ rest) = split_run (cur @ w) rest"
  by (induction w arbitrary: cur) simp_all

lemma split_ws_join:
  "\<forall>w \<in> set ws. w \<noteq> [] \<and> \<not> list_ex isspace w \<Longrightarrow> split_ws (join '' '' ws) = ws"
proof (induction ws)
  case Nil
  show ?case by (simp add: split_ws_def)
next
  case step: (Cons x ws)
  then have x: "x \<noteq> []" "\<not> list_ex isspace x" by simp_all
  show ?case
  proof (cases ws)
    case Nil
    have "split_run [] (x @ []) = split_run ([] @ x) []"
      using x(2) by (rule split_run_word)
    with x(1) Nil show ?thesis by (simp add: split_ws_def)
  next
    case (Cons y ys)
    have sp: "isspace (CHR '' '')" by (simp add: isspace_def char_eval)
    have "split_ws (join '' '' (x # y # ys)) = split_run [] (x @ CHR '' '' # join '' '' (y # ys))"
      by (simp add: split_ws_def)
    also have "\<dots> = split_run ([] @ x) (CHR '' '' # join '' '' (y # ys))"
      using x(2) by (rule split_run_word)
    also have "\<dots> = x # split_ws (join '' '' (y # ys))"
      using x(1) sp by (simp add: split_ws_def)
    also have "split_ws (join '' '' (y # ys)) = y # ys"
      using step.IH step.prems Cons by simp
    finally show ?thesis using Cons by simp
  qed
qed

lemma lower_join: "lower (join sep ws) = join (lower sep) (map lower ws)"
  by (induction sep ws rule: join.induct) (simp_all add: lower_def)

lemma sentiment_words_join:
  assumes "\<forall>w \<in> set ws. w \<noteq> [] \<and> \<not> list_ex isspace w"
  shows "sentiment_words (join '' '' ws) = lower ` set ws"
proof -
  have "lower '' '' = '' ''" by (simp add: lower_def lower_char_def char_eval)
  then have "lower (join '' '' ws) = join '' '' (map lower ws)"
    by (simp add: lower_join)
  moreover have "\<forall>w \<in> set (map lower ws). w \<noteq> [] \<and> \<not> list_ex isspace w"
    using assms by (auto simp: lower_def list_ex_iff isspace_lower_char_iff)
  ultimately have "split_ws (lower (join '' '' ws)) = map lower ws"
    by (simp add: split_ws_join)
  then show ?thesis by (simp add: sentiment_words_def)
qed

text \<open>
  C8. \<open>analyze_sentiment\<close> takes the set of whitespace-separated words of the lower-cased
  text, so a repeated word counts once: for words joined by single spaces that set is the
  set of the lower-cased words. The result is \<open>positive\<close> exactly when the set shares more
  words with the positive keywords than with the negative ones, \<open>negative\<close> exactly when it
  shares fewer, and \<open>neutral\<close> exactly on a tie.
\<close>

theorem analyze_sentiment_classes:
  "(analyze_sentiment t = ''positive'' \<longleftrightarrow>
      card (sentiment_words t \<inter> negative_words) < card (sentiment_words t \<inter> positive_words))
   \<and> (analyze_sentiment t = ''negative'' \<longleftrightarrow>
      card (sentiment_words t \<inter> positive_words) < card (sentiment_words t \<inter> negative_words))
   \<and> (analyze_sentiment t = ''neutral'' \<longleftrightarrow>
      card (sentiment_words t \<inter> positive_words) = card (sentiment_words t \<inter> negative_words))
   \<and> sentiment_words t = set (split_ws (lower t))
   \<and> ((\<forall>w \<in> set ws. w \<noteq> [] \<and> \<not> list_ex isspace w) \<longrightarrow>
        sentiment_words (join '' '' ws) = lower ` set ws)
   \<and> analyze_sentiment ''This was a great and amazing experience'' = ''positive''
   \<and> analyze_sentiment ''This is hard and a difficult problem'' = ''negative''
   \<and> analyze_sentiment ''I work with Java'' = ''neutral''
   \<and> analyze_sentiment ''Great great GREAT but hard'' = ''neutral''"
proof (intro conjI impI)
  show "analyze_sentiment t = ''positive'' \<longleftrightarrow>
      card (sentiment_words t \<inter> negative_words) < card (sentiment_words t \<inter> positive_words)"
    by (simp add: analyze_sentiment_def Let_def)
  show "analyze_sentiment t = ''negative'' \<longleftrightarrow>
      card (sentiment_words t \<inter> positive_words) < card (sentiment_words t \<inter> negative_words)"
    by (simp add: analyze_sentiment_def Let_def)
  show "analyze_sentiment t = ''neutral'' \<longleftrightarrow>
      card (sentiment_words t \<inter> positive_words) = card (sentiment_words t \<inter> negative_words)"
    by (auto simp: analyze_sentiment_def Let_def)
  show "sentiment_words t = set (split_ws (lower t))"
    by (simp add: sentiment_words_def)
  show "analyze_sentiment ''This was a great and amazing experience'' = ''positive''"
    by code_simp
  show "analyze_sentiment ''This is hard and a difficult problem'' = ''negative''"
    by code_simp
  show "analyze_sentiment ''I work with Java'' = ''neutral''"
    by code_simp
  show "analyze_sentiment ''Great great GREAT but hard'' = ''neutral''"
    by code_simp
next
  assume "\<forall>w \<in> set ws. w \<noteq> [] \<and> \<not> list_ex isspace w"
  then show "sentiment_words (join '' '' ws) = lower ` set ws"
    by (rule sentiment_words_join)
qed

theorem analyze_sentiment_classes_witness:
  "sentiment_words ''Good good work'' = {''good'', ''work''}
   \<and> card (sentiment_words ''Good good work'' \<inter> positive_words) = 1
   \<and> analyze_sentiment ''Good good work'' = ''positive''"
proof -
  have h: "\<forall>w \<in> set [''Good'', ''good'', ''work'']. w \<noteq> [] \<and> \<not> list_ex isspace w"
    by (simp add: isspace_def char_eval)
  note t = analyze_sentiment_classes [of "''Good good work''" "[''Good'', ''good'', ''work'']"]
  from t h have "sentiment_words (join '' '' [''Good'', ''good'', ''work''])
      = lower ` set [''Good'', ''good'', ''work'']"
    by blast
  then have w: "sentiment_words ''Good good work'' = {''good'', ''work''}"
    by (simp add: lower_def lower_char_def char_eval)
  then have p: "card (sentiment_words ''Good good work'' \<inter> positive_words) = 1"
    and n: "card (sentiment_words ''Good good work'' \<inter> negative_words) = 0"
    by (simp_all add: positive_words_def negative_words_def)
  from t p n have "analyze_sentiment ''Good good work'' = ''positive''"
    by simp
  with w p show ?thesis by (intro conjI)
qed

end
